theory Spec2Isabelle
  imports Main "HOL-Library.Sublist" "HOL-Library.AList" "HOL-Library.Option_ord"
begin

section \<open>Strings\<close>

text \<open>
  Python strings are modelled as \<open>string\<close>. \<open>str.strip()\<close> without argument removes
  leading and trailing whitespace; in the ASCII range these are the code points 9 to 13
  and 28 to 32. Whitespace beyond ASCII is outside this model.
\<close>

definition is_space :: "char \<Rightarrow> bool" where
  "is_space c = (let n = (of_char c :: int) in (9 \<le> n \<and> n \<le> 13) \<or> (28 \<le> n \<and> n \<le> 32))"

definition lstrip :: "string \<Rightarrow> string" where
  "lstrip s = dropWhile is_space s"

definition rstrip :: "string \<Rightarrow> string" where
  "rstrip s = rev (dropWhile is_space (rev s))"

definition strip :: "string \<Rightarrow> string" where
  "strip s = rstrip (lstrip s)"

text \<open>\<open>s.replace(old, new, 1)\<close>: the leftmost occurrence of \<open>old\<close> is replaced, once.\<close>

fun replace1 :: "string \<Rightarrow> string \<Rightarrow> string \<Rightarrow> string" where
  "replace1 old new [] = (if old = [] then new else [])"
| "replace1 old new (c # cs) =
     (if prefix old (c # cs) then new @ drop (length old) (c # cs)
      else c # replace1 old new cs)"

text \<open>\<open>s.split(",", 1)\<close>: one part when there is no comma, else the text before and after
  the first comma.\<close>

definition split_first_comma :: "string \<Rightarrow> string list" where
  "split_first_comma s =
     (let a = takeWhile (\<lambda>c. c \<noteq> CHR '','') s; b = dropWhile (\<lambda>c. c \<noteq> CHR '','') s
      in case b of [] \<Rightarrow> [a] | _ # rest \<Rightarrow> [a, rest])"

text \<open>\<open>s.split(sep)\<close> and \<open>sep.join(parts)\<close>, used by pathlib.\<close>

fun split_on :: "char \<Rightarrow> string \<Rightarrow> string list" where
  "split_on sep [] = [[]]"
| "split_on sep (c # cs) =
     (if c = sep then [] # split_on sep cs
      else (case split_on sep cs of [] \<Rightarrow> [[c]] | w # ws \<Rightarrow> (c # w) # ws))"

fun join :: "string \<Rightarrow> string list \<Rightarrow> string" where
  "join sep [] = []"
| "join sep [w] = w"
| "join sep (w # ws) = w @ sep @ join sep ws"

section \<open>Exceptions\<close>

datatype pyexn = ValueError | OSError | KeyError | SameFileError | FileNotFoundError

section \<open>PlexPathMapper\<close>

record PlexPathMapper =
  path_mappings :: "(string \<times> string) list"

text \<open>
  \<open>_load_mappings_from_file\<close>. The configuration file is given as \<open>None\<close> when
  \<open>os.path.exists\<close> is false, else as the list of its lines.
\<close>

definition parse_mapping_line :: "string \<Rightarrow> (string \<times> string) list" where
  "parse_mapping_line raw =
     (let line = strip raw in
      if line = [] \<or> prefix ''#'' line then []
      else (case split_first_comma line of
              [a, b] \<Rightarrow> [(strip a, strip b)]
            | _ \<Rightarrow> []))"

definition load_mappings_from_file :: "string list option \<Rightarrow> (string \<times> string) list" where
  "load_mappings_from_file config =
     (case config of None \<Rightarrow> [] | Some ls \<Rightarrow> concat (map parse_mapping_line ls))"

text \<open>\<open>__init__\<close>: the first argument is the optional \<open>path_mappings\<close> parameter.\<close>

definition init_mapper ::
  "(string \<times> string) list option \<Rightarrow> string list option \<Rightarrow> pyexn + PlexPathMapper" where
  "init_mapper supplied config =
     (case supplied of
        Some pm \<Rightarrow> Inr \<lparr>path_mappings = pm\<rparr>
      | None \<Rightarrow>
          (let loaded = load_mappings_from_file config in
           if loaded = [] then Inl ValueError else Inr \<lparr>path_mappings = loaded\<rparr>))"

text \<open>\<open>map_path\<close>: the loop over the rules is \<open>apply_mappings\<close>. The early return covers
  the empty string (and \<open>None\<close>, which the model does not distinguish from it).\<close>

fun apply_mappings :: "(string \<times> string) list \<Rightarrow> string \<Rightarrow> string" where
  "apply_mappings [] p = p"
| "apply_mappings ((old_prefix, new_prefix) # rest) p =
     (if prefix old_prefix p then replace1 old_prefix new_prefix p
      else apply_mappings rest p)"

definition map_path :: "PlexPathMapper \<Rightarrow> string \<Rightarrow> string" where
  "map_path m plex_path =
     (if plex_path = [] then plex_path
      else apply_mappings (path_mappings m) (strip plex_path))"

section \<open>File probe\<close>

text \<open>
  \<open>str(Path(p))\<close> on a POSIX system: repeated slashes collapse (exactly two leading
  slashes are kept), \<open>.\<close> components and trailing slashes disappear, and the empty path
  is written \<open>.\<close>.
\<close>

definition path_root :: "string \<Rightarrow> string" where
  "path_root p =
     (if \<not> prefix ''/'' p then []
      else if prefix ''//'' p \<and> \<not> prefix ''///'' p then ''//''
      else ''/'')"

definition path_parts :: "string \<Rightarrow> string list" where
  "path_parts p = filter (\<lambda>x. x \<noteq> [] \<and> x \<noteq> ''.'') (split_on CHR ''/'' p)"

definition posix_str :: "string \<Rightarrow> string" where
  "posix_str p =
     (let s = path_root p @ join ''/'' (path_parts p) in if s = [] then ''.'' else s)"

text \<open>
  The filesystem and the clock are collaborators. \<open>is_file\<close> answers
  \<open>Path.is_file()\<close>; \<open>st_mtime\<close> is the modification time in epoch seconds, \<open>None\<close> when
  \<open>stat()\<close> raises OSError. \<open>year_of\<close> is the year of \<open>datetime.fromtimestamp(t)\<close>,
  \<open>None\<close> when that call raises ValueError or OSError (timestamps are taken to lie in
  the range of the platform's \<open>time_t\<close>, where it raises nothing else). A datetime is
  represented by
  the epoch second it was built from, so \<open>int(dt.timestamp())\<close> is that number;
  \<open>isoformat\<close> writes it as text and \<open>current_year\<close> is \<open>datetime.now().year\<close>.
\<close>

record filesystem =
  is_file :: "string \<Rightarrow> bool"
  st_mtime :: "string \<Rightarrow> int option"

record clock =
  year_of :: "int \<Rightarrow> int option"
  current_year :: int
  isoformat :: "int \<Rightarrow> string"

text \<open>The body of each \<open>try\<close> block of \<open>get_file_info\<close>: \<open>None\<close> when the exception
  handler ran.\<close>

definition read_mtime :: "filesystem \<Rightarrow> clock \<Rightarrow> string \<Rightarrow> int option" where
  "read_mtime fs clk path =
     (case st_mtime fs path of
        None \<Rightarrow> None
      | Some t \<Rightarrow> (case year_of clk t of None \<Rightarrow> None | Some y \<Rightarrow> Some t))"

definition probe_mapped ::
  "filesystem \<Rightarrow> clock \<Rightarrow> PlexPathMapper \<Rightarrow> string \<Rightarrow> int option \<times> string option \<times> bool" where
  "probe_mapped fs clk m plex_path =
     (let mapped_path = map_path m plex_path in
      if mapped_path \<noteq> plex_path \<and> is_file fs (posix_str mapped_path) then
        (case read_mtime fs clk (posix_str mapped_path) of
           Some t \<Rightarrow> (Some t, Some mapped_path, True)
         | None \<Rightarrow> (None, None, False))
      else (None, None, False))"

definition get_file_info ::
  "filesystem \<Rightarrow> clock \<Rightarrow> PlexPathMapper \<Rightarrow> string \<Rightarrow> int option \<times> string option \<times> bool" where
  "get_file_info fs clk m plex_path =
     (if plex_path = [] then (None, None, False)
      else if is_file fs (posix_str plex_path) then
        (case read_mtime fs clk (posix_str plex_path) of
           Some t \<Rightarrow> (Some t, Some (posix_str plex_path), True)
         | None \<Rightarrow> probe_mapped fs clk m plex_path)
      else probe_mapped fs clk m plex_path)"

section \<open>Integers as text\<close>

text \<open>
  \<open>str(n)\<close> for an integer, and \<open>int(s)\<close> for a string: surrounding whitespace is
  dropped, one sign is allowed, and single underscores may separate digits. \<open>None\<close>
  stands for the ValueError of \<open>int\<close>. Only ASCII digits are modelled.
\<close>

definition digit_char :: "int \<Rightarrow> char" where
  "digit_char d = char_of (48 + d)"

function str_digits :: "int \<Rightarrow> string" where
  "str_digits n =
     (if n < 10 then [digit_char n] else str_digits (n div 10) @ [digit_char (n mod 10)])"
  by pat_completeness auto
termination
  by (relation "measure nat") auto

declare str_digits.simps [simp del]

definition py_str :: "int \<Rightarrow> string" where
  "py_str i = (if i < 0 then CHR ''-'' # str_digits (- i) else str_digits i)"

definition is_digit :: "char \<Rightarrow> bool" where
  "is_digit c = (48 \<le> (of_char c :: int) \<and> (of_char c :: int) \<le> 57)"

definition digit_val :: "char \<Rightarrow> int" where
  "digit_val c = (of_char c :: int) - 48"

fun valid_body :: "string \<Rightarrow> bool" and valid_rest :: "string \<Rightarrow> bool" where
  "valid_body [] = False"
| "valid_body (c # cs) = (is_digit c \<and> valid_rest cs)"
| "valid_rest [] = True"
| "valid_rest (c # cs) = (if is_digit c then valid_rest cs else c = CHR ''_'' \<and> valid_body cs)"

definition body_value :: "string \<Rightarrow> int" where
  "body_value body = foldl (\<lambda>a c. 10 * a + digit_val c) 0 (filter is_digit body)"

definition py_int :: "string \<Rightarrow> int option" where
  "py_int s =
     (let t = strip s;
          body = (if prefix ''-'' t \<or> prefix ''+'' t then tl t else t)
      in if valid_body body
         then Some (if prefix ''-'' t then - body_value body else body_value body)
         else None)"

section \<open>Catalog rows\<close>

text \<open>
  A value of an SQLite column. REAL and BLOB values are left out; NULL and the empty
  string are both the empty string in \<open>row_file\<close>, and the WHERE clause of each query
  removes them.
\<close>

datatype sqlval = SqlNull | SqlInt int | SqlText string

text \<open>
  One row of the join of \<open>metadata_items\<close>, \<open>media_items\<close> and \<open>media_parts\<close>, in the
  order of \<open>ORDER BY metadata_items.updated_at DESC\<close>. \<open>row_other\<close> holds the columns
  that only the export query selects.
\<close>

record join_row =
  row_id :: int
  row_title :: "string option"
  row_added_at :: sqlval
  row_created_at :: sqlval
  row_updated_at :: sqlval
  row_library_section_id :: sqlval
  row_file :: string
  row_other :: "(string \<times> sqlval) list"

text \<open>The rows of the query of \<open>get_recent_media\<close>.\<close>

definition recent_query :: "join_row list \<Rightarrow> join_row list" where
  "recent_query cat = filter (\<lambda>r. row_title r \<noteq> None \<and> row_file r \<noteq> []) cat"



section \<open>Reconciliation\<close>

record entry =
  e_item_id :: int
  e_title :: "string option"
  e_library_section_id :: sqlval
  e_added_at :: "int option"
  e_created_at :: "int option"
  e_updated_at :: "int option"
  e_plex_path :: string
  e_actual_path :: "string option"
  e_file_mtime :: "int option"
  e_file_exists :: bool
  e_path_mapped :: bool

text \<open>
  The conversion loop of \<open>_create_entry\<close>: a positive integer becomes a datetime, anything
  else leaves the field \<open>None\<close>. The outer \<open>None\<close> is the exception of
  \<open>datetime.fromtimestamp\<close>, which nothing catches here.
\<close>

definition convert_timestamp :: "clock \<Rightarrow> sqlval \<Rightarrow> int option option" where
  "convert_timestamp clk v =
     (case v of
        SqlInt t \<Rightarrow>
          (if t > 0 then (case year_of clk t of None \<Rightarrow> None | Some y \<Rightarrow> Some (Some t))
           else Some None)
      | _ \<Rightarrow> Some None)"

definition create_entry :: "clock \<Rightarrow> join_row \<Rightarrow> entry option" where
  "create_entry clk r =
     (case convert_timestamp clk (row_added_at r) of
        None \<Rightarrow> None
      | Some a \<Rightarrow>
          (case convert_timestamp clk (row_created_at r) of
             None \<Rightarrow> None
           | Some c \<Rightarrow>
               (case convert_timestamp clk (row_updated_at r) of
                  None \<Rightarrow> None
                | Some u \<Rightarrow>
                    Some \<lparr>e_item_id = row_id r, e_title = row_title r,
                          e_library_section_id = row_library_section_id r,
                          e_added_at = a, e_created_at = c, e_updated_at = u,
                          e_plex_path = row_file r, e_actual_path = None,
                          e_file_mtime = None, e_file_exists = False,
                          e_path_mapped = False\<rparr>)))"

text \<open>
  \<open>sorted(entries, key=..., reverse=True)\<close> is stable: entries with equal keys keep
  their order. A missing value takes the key \<open>datetime.min\<close>, here \<open>None\<close>, the least
  element of the order on \<open>int option\<close>.
\<close>

definition sorted_desc :: "('a \<Rightarrow> int option) \<Rightarrow> 'a list \<Rightarrow> 'a list" where
  "sorted_desc key xs = rev (sort_key key (rev xs))"

definition sort_entries :: "entry list \<Rightarrow> string \<Rightarrow> entry list" where
  "sort_entries entries sort_by =
     (if sort_by = ''file_mtime'' then sorted_desc e_file_mtime entries
      else if sort_by = ''added_at'' then sorted_desc e_added_at entries
      else if sort_by = ''created_at'' then sorted_desc e_created_at entries
      else if sort_by = ''updated_at'' then sorted_desc e_updated_at entries
      else entries)"

text \<open>\<open>xs[:k]\<close>: a negative \<open>k\<close> counts from the end.\<close>

definition slice_to :: "int \<Rightarrow> 'a list \<Rightarrow> 'a list" where
  "slice_to k xs = (if 0 \<le> k then take (nat k) xs else take (length xs - nat (- k)) xs)"

text \<open>
  The body of the loop of \<open>get_recent_media\<close> for one row: the entry appended to
  \<open>entries\<close> and what is appended to \<open>updates\<close>, the pair
  \<open>(int(file_mtime.timestamp()), item_id)\<close> when the file exists. \<open>None\<close> is an exception
  leaving the loop.
\<close>

definition process_row ::
  "filesystem \<Rightarrow> clock \<Rightarrow> PlexPathMapper \<Rightarrow> join_row \<Rightarrow> (entry \<times> (int \<times> int) list) option" where
  "process_row fs clk m r =
     (case create_entry clk r of
        None \<Rightarrow> None
      | Some e \<Rightarrow>
          (case get_file_info fs clk m (row_file r) of
             (file_mtime, actual_path, exists) \<Rightarrow>
               if exists then
                 (case file_mtime of
                    None \<Rightarrow> None
                  | Some t \<Rightarrow>
                      Some (e\<lparr>e_file_mtime := Some t, e_actual_path := actual_path,
                              e_file_exists := True,
                              e_path_mapped := (actual_path \<noteq> Some (row_file r))\<rparr>,
                            [(t, row_id r)]))
               else Some (e, [])))"

fun process_rows ::
  "filesystem \<Rightarrow> clock \<Rightarrow> PlexPathMapper \<Rightarrow> join_row list \<Rightarrow>
     (entry list \<times> (int \<times> int) list) option" where
  "process_rows fs clk m [] = Some ([], [])"
| "process_rows fs clk m (r # rs) =
     (case process_row fs clk m r of
        None \<Rightarrow> None
      | Some (e, u) \<Rightarrow>
          (case process_rows fs clk m rs of
             None \<Rightarrow> None
           | Some (entries, updates) \<Rightarrow> Some (e # entries, u @ updates)))"

definition get_recent_media ::
  "filesystem \<Rightarrow> clock \<Rightarrow> PlexPathMapper \<Rightarrow> join_row list \<Rightarrow> int \<Rightarrow> string \<Rightarrow>
     (entry list \<times> (int \<times> int) list) option" where
  "get_recent_media fs clk m cat limit sort_by =
     (case process_rows fs clk m (recent_query cat) of
        None \<Rightarrow> None
      | Some (entries0, updates0) \<Rightarrow>
          (let entries = slice_to limit (sort_entries entries0 sort_by);
               limited_item_ids = set (map e_item_id entries)
           in Some (entries,
                    filter (\<lambda>(mtime, item_id). item_id \<in> limited_item_ids) updates0)))"

section \<open>Snapshot export\<close>

text \<open>
  A row of the CSV file, as \<open>csv.DictReader\<close> returns it: column name to text. The
  writer turns \<open>None\<close> into the empty field and any other value into \<open>str(value)\<close>;
  quoting is the csv module's business and every field is read back as it was written.
\<close>

type_synonym csv_row = "string \<rightharpoonup> string"





section \<open>Snapshot import\<close>

text \<open>
  The body of the reading loop of \<open>create_db_from_csv\<close> for one row: \<open>Inl\<close> is an
  exception that leaves the loop, \<open>Inr None\<close> a row that is passed over, and
  \<open>Inr (Some (metadata_id, new_timestamp))\<close> the assignment
  \<open>updates[metadata_id] = new_timestamp\<close>.
\<close>

definition row_update :: "clock \<Rightarrow> bool \<Rightarrow> csv_row \<Rightarrow> pyexn + (int \<times> int) option" where
  "row_update clk fix_invalid_dates row =
     (case row ''new_updated_at'' of
        None \<Rightarrow> Inr None
      | Some ts_text \<Rightarrow>
          if row ''file_exists'' = Some ''true'' \<and> ts_text \<noteq> [] then
            (case row ''id'' of
               None \<Rightarrow> Inl KeyError
             | Some id_text \<Rightarrow>
                 (case py_int id_text of
                    None \<Rightarrow> Inl ValueError
                  | Some metadata_id \<Rightarrow>
                      (case py_int ts_text of
                         None \<Rightarrow> Inl ValueError
                       | Some new_timestamp \<Rightarrow>
                           if fix_invalid_dates then
                             (case year_of clk new_timestamp of
                                None \<Rightarrow> Inr None
                              | Some y \<Rightarrow>
                                  if y > current_year clk + 1 \<or> y < 1970 then Inr None
                                  else Inr (Some (metadata_id, new_timestamp)))
                           else Inr (Some (metadata_id, new_timestamp)))))
          else Inr None)"


section \<open>Catalog store\<close>













section \<open>Notions used in the statements\<close>





text \<open>The assignments \<open>(metadata_id, new_timestamp)\<close> that the rows of a CSV file give
  rise to, in the order of the rows.\<close>

definition emitted_updates :: "clock \<Rightarrow> bool \<Rightarrow> csv_row list \<Rightarrow> (int \<times> int) list" where
  "emitted_updates clk fix_invalid_dates rows =
     concat (map (\<lambda>row. case row_update clk fix_invalid_dates row of
                            Inr (Some p) \<Rightarrow> [p]
                          | _ \<Rightarrow> []) rows)"




section \<open>A clock for examples\<close>

text \<open>
  The calendar of a process whose local time is UTC: the year of an epoch second by the
  usual days-to-civil-date computation; \<open>datetime\<close> has the years 1 to 9999.
\<close>

definition civil_date :: "int \<Rightarrow> int \<Rightarrow> int \<Rightarrow> int \<Rightarrow> int \<times> int \<times> int" where
  "civil_date y doy mp mo = (y + (if mo \<le> 2 then 1 else 0), mo, doy - (153 * mp + 2) div 5 + 1)"

definition civil_month :: "int \<Rightarrow> int \<Rightarrow> int \<Rightarrow> int \<times> int \<times> int" where
  "civil_month y doy mp = civil_date y doy mp (if mp < 10 then mp + 3 else mp - 9)"

definition civil_day :: "int \<Rightarrow> int \<Rightarrow> int \<times> int \<times> int" where
  "civil_day y doy = civil_month y doy ((5 * doy + 2) div 153)"

definition civil_year :: "int \<Rightarrow> int \<Rightarrow> int \<Rightarrow> int \<times> int \<times> int" where
  "civil_year era doe yoe =
     civil_day (yoe + era * 400) (doe - (365 * yoe + yoe div 4 - yoe div 100))"

definition civil_era :: "int \<Rightarrow> int \<Rightarrow> int \<times> int \<times> int" where
  "civil_era era doe =
     civil_year era doe ((doe - doe div 1460 + doe div 36524 - doe div 146096) div 365)"

definition civil_shift :: "int \<Rightarrow> int \<times> int \<times> int" where
  "civil_shift z = civil_era (z div 146097) (z mod 146097)"

definition civil :: "int \<Rightarrow> int \<times> int \<times> int" where
  "civil days = civil_shift (days + 719468)"

definition utc_year :: "int \<Rightarrow> int" where
  "utc_year t = fst (civil (t div 86400))"

definition pad :: "nat \<Rightarrow> string \<Rightarrow> string" where
  "pad w s = replicate (w - length s) CHR ''0'' @ s"

definition iso_text :: "int \<times> int \<times> int \<Rightarrow> int \<Rightarrow> string" where
  "iso_text date s =
     (case date of
        (y, mo, d) \<Rightarrow>
          pad 4 (py_str y) @ ''-'' @ pad 2 (py_str mo) @ ''-'' @ pad 2 (py_str d) @ ''T''
          @ pad 2 (py_str (s div 3600)) @ '':'' @ pad 2 (py_str (s mod 3600 div 60)) @ '':''
          @ pad 2 (py_str (s mod 60)))"

definition utc_isoformat :: "int \<Rightarrow> string" where
  "utc_isoformat t = iso_text (civil (t div 86400)) (t mod 86400)"

definition datetime_year :: "int \<Rightarrow> int option" where
  "datetime_year y = (if 1 \<le> y \<and> y \<le> 9999 then Some y else None)"

definition utc_clock :: "int \<Rightarrow> clock" where
  "utc_clock this_year =
     \<lparr>year_of = (\<lambda>t. datetime_year (utc_year t)),
      current_year = this_year,
      isoformat = utc_isoformat\<rparr>"

section \<open>An example catalog\<close>

text \<open>
  Three catalog items; the second has two media parts, so the join has two rows with
  its id. The first file is found only under the remapped path, the last is missing.
\<close>

definition demo_mapper :: PlexPathMapper where
  "demo_mapper = \<lparr>path_mappings = [(''/unittest/'', ''/home/unittest/'')]\<rparr>"

definition demo_fs :: filesystem where
  "demo_fs =
     \<lparr>is_file = (\<lambda>p. p = ''/home/unittest/movies/a.mkv'' \<or> p = ''/data/b.mkv''
                       \<or> p = ''/data/b2.mkv''),
      st_mtime = (\<lambda>p. if p = ''/home/unittest/movies/a.mkv'' then Some 1600000000
                       else if p = ''/data/b.mkv'' then Some 1600000100
                       else if p = ''/data/b2.mkv'' then Some 1600000200
                       else None)\<rparr>"

definition demo_row :: "int \<Rightarrow> string option \<Rightarrow> string \<Rightarrow> join_row" where
  "demo_row i t f =
     \<lparr>row_id = i, row_title = t, row_added_at = SqlInt 1234567890, row_created_at = SqlNull,
      row_updated_at = SqlInt 1234567890, row_library_section_id = SqlInt 1,
      row_file = f, row_other = []\<rparr>"

definition demo_catalog :: "join_row list" where
  "demo_catalog =
     [demo_row 1 (Some ''A'') ''/unittest/movies/a.mkv'',
      demo_row 2 (Some ''B'') ''/data/b.mkv'',
      demo_row 2 (Some ''B'') ''/data/b2.mkv'',
      demo_row 3 (Some ''C'') ''/gone/c.mkv'']"





section \<open>Path resolution\<close>

lemma replace1_prefix:
  "prefix old s \<Longrightarrow> replace1 old new s = new @ drop (length old) s"
  by (cases s) auto

lemma apply_mappings_find:
  "apply_mappings rules p =
     (case find (\<lambda>(old_prefix, new_prefix). prefix old_prefix p) rules of
        None \<Rightarrow> p
      | Some (old_prefix, new_prefix) \<Rightarrow> new_prefix @ drop (length old_prefix) p)"
  by (induction rules p rule: apply_mappings.induct) (auto simp: replace1_prefix)

lemma lstrip_decomp:
  "\<exists>a. s = a @ lstrip s \<and> (\<forall>c\<in>set a. is_space c)"
  unfolding lstrip_def
  by (rule exI[of _ "takeWhile is_space s"]) (auto dest: set_takeWhileD)

lemma rstrip_decomp:
  "\<exists>b. s = rstrip s @ b \<and> (\<forall>c\<in>set b. is_space c)"
proof -
  have "rev s = takeWhile is_space (rev s) @ dropWhile is_space (rev s)" by simp
  then have "s = rev (dropWhile is_space (rev s)) @ rev (takeWhile is_space (rev s))"
    by (metis rev_append rev_rev_ident)
  moreover have "\<forall>c\<in>set (rev (takeWhile is_space (rev s))). is_space c"
    by (auto dest: set_takeWhileD)
  ultimately show ?thesis unfolding rstrip_def by blast
qed

text \<open>What \<open>strip\<close> removes is whitespace, on both sides.\<close>

lemma strip_decomp:
  "\<exists>a b. s = a @ strip s @ b \<and> (\<forall>c\<in>set a. is_space c) \<and> (\<forall>c\<in>set b. is_space c)"
proof -
  obtain a where a: "s = a @ lstrip s" "\<forall>c\<in>set a. is_space c"
    using lstrip_decomp by blast
  obtain b where b: "lstrip s = rstrip (lstrip s) @ b" "\<forall>c\<in>set b. is_space c"
    using rstrip_decomp by blast
  have "s = a @ strip s @ b" using a(1) b(1) by (simp add: strip_def)
  then show ?thesis using a(2) b(2) by blast
qed


text \<open>
  C2. For a non-empty path, \<open>map_path\<close> works on the path with its surrounding
  whitespace removed: the first rule of the list whose old prefix is a prefix of that
  path decides, its old prefix at the start of the path is replaced by its new prefix,
  and later rules are not looked at, whether or not they match a longer prefix; when no
  rule matches, the stripped path is returned.
\<close>

theorem map_path_first_match:
  assumes "plex_path \<noteq> []"
  shows "map_path m plex_path =
           (case find (\<lambda>(old_prefix, new_prefix). prefix old_prefix (strip plex_path))
                      (path_mappings m) of
              None \<Rightarrow> strip plex_path
            | Some (old_prefix, new_prefix) \<Rightarrow>
                new_prefix @ drop (length old_prefix) (strip plex_path))"
  using assms by (simp add: map_path_def apply_mappings_find)

lemma strip_demo_path: "strip ''  /unittest/movies/a.mkv '' = ''/unittest/movies/a.mkv''"
  by code_simp

theorem map_path_first_match_witness:
  "''  /unittest/movies/a.mkv '' \<noteq> [] \<and>
   map_path \<lparr>path_mappings = [(''/other/'', ''/x/''), (''/unittest/'', ''/home/unittest/''),
                              (''/unittest/movies/'', ''/mnt/'')]\<rparr>
     ''  /unittest/movies/a.mkv '' = ''/home/unittest/movies/a.mkv''"
  using map_path_first_match[of "''  /unittest/movies/a.mkv ''"
     "\<lparr>path_mappings = [(''/other/'', ''/x/''), (''/unittest/'', ''/home/unittest/''),
                              (''/unittest/movies/'', ''/mnt/'')]\<rparr>"]
  by (simp add: strip_demo_path)

section \<open>Resolver construction\<close>

text \<open>
  C6, against the claim as stated: a resolver built from an explicitly supplied empty
  rule list is accepted, and it maps every path to itself.
\<close>

theorem init_mapper_empty_supplied:
  "init_mapper (Some []) None = Inr \<lparr>path_mappings = []\<rparr> \<and>
   map_path \<lparr>path_mappings = []\<rparr> ''/unittest/movies/a.mkv'' = ''/unittest/movies/a.mkv''"
  by code_simp

text \<open>
  C6, amended. Construction fails, with the ValueError, exactly when no rule list was
  supplied and loading the configuration file gives no rule. A supplied list is taken
  as it is, so the resolver has no rule exactly when the empty list was supplied.
\<close>

theorem init_mapper_fails_iff:
  "((\<exists>e. init_mapper supplied config = Inl e) \<longleftrightarrow>
      supplied = None \<and> load_mappings_from_file config = []) \<and>
   (init_mapper supplied config = Inl ValueError \<longleftrightarrow>
      supplied = None \<and> load_mappings_from_file config = []) \<and>
   (\<forall>m. init_mapper supplied config = Inr m \<longrightarrow>
      path_mappings m =
        (case supplied of Some pm \<Rightarrow> pm | None \<Rightarrow> load_mappings_from_file config)
      \<and> (path_mappings m = [] \<longleftrightarrow> supplied = Some []))"
  by (auto simp: init_mapper_def Let_def split: option.splits)

theorem init_mapper_fails_iff_witness:
  "init_mapper None (Some [''# rules'', '''']) = Inl ValueError \<and>
   (\<exists>m. init_mapper None (Some [''# rules'', ''/unittest/,/home/unittest/'']) = Inr m \<and>
        path_mappings m = [(''/unittest/'', ''/home/unittest/'')])"
proof -
  have a: "load_mappings_from_file (Some [''# rules'', '''']) = []"
    by code_simp
  have b: "load_mappings_from_file (Some [''# rules'', ''/unittest/,/home/unittest/''])
             = [(''/unittest/'', ''/home/unittest/'')]"
    by code_simp
  have 1: "init_mapper None (Some [''# rules'', '''']) = Inl ValueError"
    using init_mapper_fails_iff[of None "Some [''# rules'', '''']"] a by blast
  have "\<not> (\<exists>e. init_mapper None (Some [''# rules'', ''/unittest/,/home/unittest/'']) = Inl e)"
    using init_mapper_fails_iff[of None "Some [''# rules'', ''/unittest/,/home/unittest/'']"] b
    by simp
  then obtain m where
    m: "init_mapper None (Some [''# rules'', ''/unittest/,/home/unittest/'']) = Inr m"
    by (cases "init_mapper None (Some [''# rules'', ''/unittest/,/home/unittest/''])") auto
  have "path_mappings m = [(''/unittest/'', ''/home/unittest/'')]"
    using init_mapper_fails_iff[of None "Some [''# rules'', ''/unittest/,/home/unittest/'']"] m b
    by simp
  then show ?thesis using 1 m by blast
qed

section \<open>File probe: the original path first\<close>




section \<open>Reconciliation: truncation\<close>


lemma set_slice_to: "set (slice_to k xs) \<subseteq> set xs"
  by (auto simp: slice_to_def dest: in_set_takeD)

lemma length_slice_to: "0 \<le> k \<Longrightarrow> int (length (slice_to k xs)) \<le> k"
  by (simp add: slice_to_def)


text \<open>
  C3. With the limit 0 \<open>get_recent_media\<close> returns no entry and no update although the
  catalog has four rows, three of them with a file; with the limit -1 it drops the last
  entry of the sorted list.
\<close>

theorem get_recent_media_limit_zero:
  "get_recent_media demo_fs (utc_clock 2026) demo_mapper demo_catalog 0 ''file_mtime''
     = Some ([], []) \<and>
   map_option (\<lambda>(es, us). (map e_item_id es, us))
     (get_recent_media demo_fs (utc_clock 2026) demo_mapper demo_catalog (- 1) ''file_mtime'')
     = Some ([2, 2, 1], [(1600000000, 1), (1600000100, 2), (1600000200, 2)])"
  by code_simp

text \<open>
  C4. Whatever the catalog, the limit and the sort key, every update that
  \<open>get_recent_media\<close> returns carries the id of an entry it returns; and for a limit
  \<open>k\<close> that is not negative it returns at most \<open>k\<close> entries.
\<close>

theorem get_recent_media_consistent:
  assumes "get_recent_media fs clk m cat k sort_by = Some (entries, updates)"
  shows "(\<forall>(mtime, item_id)\<in>set updates. item_id \<in> e_item_id ` set entries) \<and>
         (0 \<le> k \<longrightarrow> int (length entries) \<le> k)"
  using assms
  by (auto simp: get_recent_media_def Let_def length_slice_to split: option.splits)

theorem get_recent_media_consistent_witness:
  "map_option (\<lambda>(es, us). (map e_item_id es, us))
     (get_recent_media demo_fs (utc_clock 2026) demo_mapper demo_catalog 1 ''file_mtime'')
   = Some ([2], [(1600000100, 2), (1600000200, 2)])"
proof -
  have e: "map_option (\<lambda>(es, us). (map e_item_id es, us))
     (get_recent_media demo_fs (utc_clock 2026) demo_mapper demo_catalog 1 ''file_mtime'')
   = Some ([2], [(1600000100, 2), (1600000200, 2)])" by code_simp
  then obtain es us where
    g: "get_recent_media demo_fs (utc_clock 2026) demo_mapper demo_catalog 1 ''file_mtime''
          = Some (es, us)"
    by (cases "get_recent_media demo_fs (utc_clock 2026) demo_mapper demo_catalog 1 ''file_mtime''")
       auto
  from get_recent_media_consistent[OF g] e show ?thesis by simp
qed
section \<open>Snapshot import\<close>








lemma emitted_append:
  "emitted_updates clk fixd (a @ b) = emitted_updates clk fixd a @ emitted_updates clk fixd b"
  by (simp add: emitted_updates_def)









section \<open>Round trip of export and import\<close>




























section \<open>Catalog writer\<close>













end
